theory Spec2Isabelle
  imports Main "HOL-Library.Sublist"
begin

section \<open>Results and errors\<close>

text \<open>
  A JavaScript exception is a value of type \<open>error\<close>; a computation that may raise
  returns \<open>error + 'a\<close> with \<open>Inl\<close> for the exception. \<open>andThen\<close> sequences two such
  computations: the second runs only when the first returned.
\<close>

datatype error = TypeError

type_synonym 'a result = "error + 'a"

definition andThen :: "'a result \<Rightarrow> ('a \<Rightarrow> 'b result) \<Rightarrow> 'b result" where
  "andThen r f = (case r of Inl e \<Rightarrow> Inl e | Inr a \<Rightarrow> f a)"

section \<open>Built-in messages\<close>

text \<open>
  Strings are lists of bytes, the UTF-8 encoding of the JavaScript string; the emoji of
  the source are written as their bytes, a line break is the byte \<open>0x0A\<close>.
\<close>

definition ERROR_MESSAGE_PREFIX :: string where
  "ERROR_MESSAGE_PREFIX =
     [CHR 0xE2, CHR 0x9A, CHR 0xA0, CHR 0xEF, CHR 0xB8, CHR 0x8F] @ '' *Beep, boop, error!*''"

definition DEFAULT_MSG_TEMPLATE :: string where
  "DEFAULT_MSG_TEMPLATE =
     [CHR 0xF0, CHR 0x9F, CHR 0x91, CHR 0x8B] @
     '' *Selamat bergabung* $firstname ($safeusername) di $groupname yuk perkenalkan diri dan startup nya ! '' @
     [CHR 0xF0, CHR 0x9F, CHR 0x98, CHR 0x80, CHR 0x0A] @
     ''Kalau sobat memiliki permasalahan tentang startup, feel free to discuss with us '' @
     [CHR 0xF0, CHR 0x9F, CHR 0x98, CHR 0x80]"

definition INTRO_MSG :: string where
  "INTRO_MSG =
     [CHR 0xF0, CHR 0x9F, CHR 0x91, CHR 0x8B] @ '' Hi!'' @ [CHR 0x0A, CHR 0x0A] @
     ''Perkenalkan saya Sobat ABP bot, mulai saat ini saya akan menemani sobat di group $groupname''"

section \<open>Message composer (main.js, composeMessage)\<close>

text \<open>
  All characters the composer looks at are ASCII, and an ASCII byte never occurs inside
  the encoding of another character, so matching on bytes finds the same places as
  JavaScript's matching on UTF-16 code units.

  A member as Telegram delivers it: \<open>username\<close> is optional (\<open>None\<close> is
  JavaScript's \<open>undefined\<close>).
\<close>

record user =
  user_id :: int
  is_bot :: bool
  first_name :: string
  username :: "string option"

text \<open>
  \<open>s.replace(/([^$])(\$NAME)/g, (full, pre) => f(pre))\<close> with \<open>tok = $NAME\<close>:
  the scan goes left to right; a match is one character other than \<open>$\<close> followed by
  the token; the match is replaced by what the callback returns for that character and
  the scan resumes behind the match. A callback that raises aborts the replacement.
\<close>

function replacePlaceholder :: "string \<Rightarrow> (char \<Rightarrow> string result) \<Rightarrow> string \<Rightarrow> string result" where
  "replacePlaceholder tok f [] = Inr []"
| "replacePlaceholder tok f (c # cs) =
     (if c \<noteq> CHR ''$'' \<and> prefix tok cs
      then (case f c of
              Inl e \<Rightarrow> Inl e
            | Inr r \<Rightarrow> (case replacePlaceholder tok f (drop (length tok) cs) of
                          Inl e \<Rightarrow> Inl e
                        | Inr rest \<Rightarrow> Inr (r @ rest)))
      else (case replacePlaceholder tok f cs of
              Inl e \<Rightarrow> Inl e
            | Inr rest \<Rightarrow> Inr (c # rest)))"
  by pat_completeness auto
termination
  by (relation "measure (\<lambda>(tok, f, s). length s)") auto

definition placeholderNames :: "string list" where
  "placeholderNames = [''username'', ''safeusername'', ''firstname'', ''groupname'']"

text \<open>
  The group \<open>(username|safeusername|firstname|groupname)\<close> tried at the start of \<open>s\<close>:
  the alternatives in their order, the first that matches.
\<close>

definition matchName :: "string \<Rightarrow> string option" where
  "matchName s = find (\<lambda>n. prefix n s) placeholderNames"

text \<open>
  \<open>s.replace(/\$\$(username|safeusername|firstname|groupname)/g, (full, match) => f(match))\<close>.
\<close>

function replaceEscaped :: "(string \<Rightarrow> string result) \<Rightarrow> string \<Rightarrow> string result" where
  "replaceEscaped f [] = Inr []"
| "replaceEscaped f (c # cs) =
     (case (if prefix ''$$'' (c # cs) then matchName (drop 1 cs) else None) of
        Some n \<Rightarrow> (case f n of
                     Inl e \<Rightarrow> Inl e
                   | Inr r \<Rightarrow> (case replaceEscaped f (drop (1 + length n) cs) of
                                 Inl e \<Rightarrow> Inl e
                               | Inr rest \<Rightarrow> Inr (r @ rest)))
      | None \<Rightarrow> (case replaceEscaped f cs of
                   Inl e \<Rightarrow> Inl e
                 | Inr rest \<Rightarrow> Inr (c # rest)))"
  by pat_completeness auto
termination
  by (relation "measure (\<lambda>(f, s). length s)") auto

text \<open>
  \<open>member.username ? a : b\<close>: \<open>undefined\<close> and the empty string are falsy.
\<close>

definition truthyString :: "string option \<Rightarrow> bool" where
  "truthyString v = (case v of None \<Rightarrow> False | Some s \<Rightarrow> s \<noteq> [])"

text \<open>
  \<open>composeMessage\<close>. The function \<open>markdownEscape\<close> is the npm package
  \<open>markdown-escape\<close>, which is not part of the repository: it is the parameter
  \<open>esc\<close>. \<open>esc v\<close> is the text that a template literal interpolates for
  \<open>markdownEscape(v)\<close>, or the exception the call raises; \<open>None\<close> is \<open>undefined\<close>.
  The five replacements run one after the other, each on the result of the one before.
\<close>

definition composeMessage ::
  "(string option \<Rightarrow> string result) \<Rightarrow> string \<Rightarrow> user \<Rightarrow> string option \<Rightarrow> string result" where
  "composeMessage esc msg member groupname =
     andThen (replacePlaceholder ''$username''
                (\<lambda>pre. andThen (esc (username member)) (\<lambda>u. Inr (pre # CHR ''@'' # u))) msg) (\<lambda>m1.
     andThen (replacePlaceholder ''$firstname''
                (\<lambda>pre. andThen (esc (Some (first_name member))) (\<lambda>n. Inr (pre # n))) m1) (\<lambda>m2.
     andThen (replacePlaceholder ''$groupname''
                (\<lambda>pre. andThen (esc groupname) (\<lambda>g. Inr (pre # g))) m2) (\<lambda>m3.
     andThen (replacePlaceholder ''$safeusername''
                (\<lambda>pre. if truthyString (username member)
                        then andThen (esc (username member)) (\<lambda>u. Inr (pre # CHR ''@'' # u))
                        else andThen (esc (Some (first_name member))) (\<lambda>n. Inr (pre # CHR ''@'' # n))) m3) (\<lambda>m4.
     replaceEscaped (\<lambda>match. andThen (esc (Some match)) (\<lambda>n. Inr (CHR ''$'' # n))) m4))))"

text \<open>
  Modelled from the spec: the escaping function, the npm package \<open>markdown-escape\<close>, whose
  source is not in the repository. The spec (4.1) has it escape the characters with a
  special meaning to the markup renderer, and has the text for a missing handle be
  \<open>undefined\<close>. The table is the package's: each of \<open>* # / ( ) [ ] _\<close> gets a backslash
  in front, \<open><\<close> and \<open>>\<close> become \<open>&lt;\<close> and \<open>&gt;\<close>, one replacement after the other.
  It is used only as an instance of the parameter \<open>esc\<close>.
\<close>

definition replaceAllChar :: "char \<Rightarrow> string \<Rightarrow> string \<Rightarrow> string" where
  "replaceAllChar c r s = concat (map (\<lambda>x. if x = c then r else [x]) s)"

definition replacements :: "(char \<times> string) list" where
  "replacements =
     [(CHR ''*'', [CHR 0x5C, CHR ''*'']), (CHR ''#'', [CHR 0x5C, CHR ''#'']),
      (CHR ''/'', [CHR 0x5C, CHR ''/'']), (CHR ''('', [CHR 0x5C, CHR ''('']),
      (CHR '')'', [CHR 0x5C, CHR '')'']), (CHR ''['', [CHR 0x5C, CHR ''['']),
      (CHR '']'', [CHR 0x5C, CHR '']'']), (CHR ''<'', ''&lt;''), (CHR ''>'', ''&gt;''),
      (CHR ''_'', [CHR 0x5C, CHR ''_''])]"

definition markdownEscape :: "string option \<Rightarrow> string result" where
  "markdownEscape v =
     (case v of
        None \<Rightarrow> Inr ''undefined''
      | Some s \<Rightarrow> Inr (fold (\<lambda>(c, r). replaceAllChar c r) replacements s))"

definition composeErrorMessage :: "string \<Rightarrow> string" where
  "composeErrorMessage msg = ERROR_MESSAGE_PREFIX @ '' '' @ msg"

definition composeIntroMessage ::
  "(string option \<Rightarrow> string result) \<Rightarrow> user \<Rightarrow> string option \<Rightarrow> string result" where
  "composeIntroMessage esc owner groupName = composeMessage esc INTRO_MSG owner groupName"

section \<open>String helpers of the JavaScript runtime\<close>

text \<open>
  \<open>String.prototype.trim\<close> removes the code points of ECMAScript's WhiteSpace and
  LineTerminator classes from both ends. \<open>whiteSpace\<close> lists their UTF-8 encodings:
  U+0009 to U+000D, U+0020, U+00A0, U+1680, U+2000 to U+200A, U+2028, U+2029, U+202F,
  U+205F, U+3000 and U+FEFF.
\<close>

definition asciiWhiteSpace :: "char list" where
  "asciiWhiteSpace = [CHR 0x09, CHR 0x0A, CHR 0x0B, CHR 0x0C, CHR 0x0D, CHR 0x20]"

text \<open>The third byte of U+2000 to U+200A, U+2028, U+2029 and U+202F; the first two are E2 80.\<close>

definition generalPunctuation :: "char list" where
  "generalPunctuation =
     [CHR 0x80, CHR 0x81, CHR 0x82, CHR 0x83, CHR 0x84, CHR 0x85, CHR 0x86, CHR 0x87,
      CHR 0x88, CHR 0x89, CHR 0x8A, CHR 0xA8, CHR 0xA9, CHR 0xAF]"

definition whiteSpace :: "string list" where
  "whiteSpace =
     map (\<lambda>c. [c]) asciiWhiteSpace @
     [[CHR 0xC2, CHR 0xA0], [CHR 0xE1, CHR 0x9A, CHR 0x80]] @
     map (\<lambda>c. [CHR 0xE2, CHR 0x80, c]) generalPunctuation @
     [[CHR 0xE2, CHR 0x81, CHR 0x9F], [CHR 0xE3, CHR 0x80, CHR 0x80], [CHR 0xEF, CHR 0xBB, CHR 0xBF]]"

lemma whiteSpace_nonempty: "w \<in> set whiteSpace \<Longrightarrow> w \<noteq> []"
  by (auto simp: whiteSpace_def)

lemma find_whiteSpace_nonempty: "find P whiteSpace = Some w \<Longrightarrow> w \<noteq> []"
  by (metis find_Some_iff nth_mem whiteSpace_nonempty)

function trimStart :: "string \<Rightarrow> string" where
  "trimStart s =
     (case find (\<lambda>w. prefix w s) whiteSpace of
        None \<Rightarrow> s
      | Some w \<Rightarrow> trimStart (drop (length w) s))"
  by pat_completeness auto
termination
proof (relation "measure length")
  show "wf (measure length)" by simp
next
  fix s :: string and w
  assume f: "find (\<lambda>w. prefix w s) whiteSpace = Some w"
  then have "w \<noteq> []" by (rule find_whiteSpace_nonempty)
  moreover from f have "prefix w s" by (auto simp: find_Some_iff)
  ultimately have "s \<noteq> []" by auto
  with \<open>w \<noteq> []\<close> show "(drop (length w) s, s) \<in> measure length" by simp
qed

function trimEnd :: "string \<Rightarrow> string" where
  "trimEnd s =
     (case find (\<lambda>w. suffix w s) whiteSpace of
        None \<Rightarrow> s
      | Some w \<Rightarrow> trimEnd (take (length s - length w) s))"
  by pat_completeness auto
termination
proof (relation "measure length")
  show "wf (measure length)" by simp
next
  fix s :: string and w
  assume f: "find (\<lambda>w. suffix w s) whiteSpace = Some w"
  then have "w \<noteq> []" by (rule find_whiteSpace_nonempty)
  moreover from f have "suffix w s" by (auto simp: find_Some_iff)
  ultimately have "s \<noteq> []" by auto
  with \<open>w \<noteq> []\<close> show "(take (length s - length w) s, s) \<in> measure length" by simp
qed

declare trimStart.simps [simp del] trimEnd.simps [simp del]

definition trim :: "string \<Rightarrow> string" where
  "trim s = trimEnd (trimStart s)"

text \<open>
  A template literal \<open>`${chatId}`\<close> on an integer: its decimal digits, with a minus sign
  when negative (Telegram's chat ids are far below \<open>10^21\<close>, where JavaScript changes to
  exponent notation).
\<close>

definition digitChar :: "nat \<Rightarrow> char" where
  "digitChar d = ''0123456789'' ! d"

function natToString :: "nat \<Rightarrow> string" where
  "natToString n = (if n < 10 then [digitChar n] else natToString (n div 10) @ [digitChar (n mod 10)])"
  by pat_completeness auto
termination
  by (relation "measure id") auto

declare natToString.simps [simp del]

definition numberToString :: "int \<Rightarrow> string" where
  "numberToString i = (if i < 0 then CHR ''-'' # natToString (nat (- i)) else natToString (nat i))"

section \<open>Data (main.js, msgTemplates and the node-persist store)\<close>

text \<open>
  The store holds JSON values: strings (templates) and numbers (owner ids). A lookup
  that finds nothing gives \<open>None\<close>, JavaScript's \<open>undefined\<close>.
\<close>

datatype jsval = Str string | Num int

definition truthy :: "jsval \<Rightarrow> bool" where
  "truthy v = (case v of Str s \<Rightarrow> s \<noteq> [] | Num n \<Rightarrow> n \<noteq> 0)"

text \<open>\<open>if (x)\<close> on a value that may be \<open>undefined\<close>: the value when it is truthy.\<close>

definition whenTruthy :: "jsval option \<Rightarrow> jsval option" where
  "whenTruthy x = (case x of None \<Rightarrow> None | Some v \<Rightarrow> if truthy v then Some v else None)"

text \<open>
  The state of the bot: the object \<open>msgTemplates\<close> in memory, the durable store, and
  the messages handed to \<open>bot.sendMessage\<close> so far (chat id and the markdown text that
  goes through \<open>marked\<close>), oldest first. Storage and transport are taken to succeed.
\<close>

record bot_state =
  msgTemplates :: "int \<rightharpoonup> jsval"
  storage :: "string \<rightharpoonup> jsval"
  sent :: "(int \<times> string) list"

definition getMsgTemplateKey :: "int \<Rightarrow> string" where
  "getMsgTemplateKey chatId = numberToString chatId @ ''_msg_template''"

definition getMsgTemplate :: "bot_state \<Rightarrow> int \<Rightarrow> jsval \<times> bot_state" where
  "getMsgTemplate st chatId =
     (case whenTruthy (msgTemplates st chatId) of
        Some t \<Rightarrow> (t, st)
      | None \<Rightarrow>
          (case whenTruthy (storage st (getMsgTemplateKey chatId)) of
             Some storedTemplate \<Rightarrow>
               (storedTemplate, st\<lparr>msgTemplates := (msgTemplates st)(chatId \<mapsto> storedTemplate)\<rparr>)
           | None \<Rightarrow>
               (Str DEFAULT_MSG_TEMPLATE,
                st\<lparr>msgTemplates := (msgTemplates st)(chatId \<mapsto> Str DEFAULT_MSG_TEMPLATE)\<rparr>)))"

definition setMsgTemplate :: "bot_state \<Rightarrow> int \<Rightarrow> string \<Rightarrow> bot_state" where
  "setMsgTemplate st chatId msgTemplate =
     (let st1 = st\<lparr>storage := (storage st)(getMsgTemplateKey chatId \<mapsto> Str msgTemplate)\<rparr>
      in st1\<lparr>msgTemplates := (msgTemplates st1)(chatId \<mapsto> Str msgTemplate)\<rparr>)"

definition removeMsgTemplate :: "bot_state \<Rightarrow> int \<Rightarrow> bot_state" where
  "removeMsgTemplate st chatId =
     (let st1 = st\<lparr>msgTemplates := (msgTemplates st)(chatId := None)\<rparr>
      in st1\<lparr>storage := (storage st1)(numberToString chatId @ ''_msg_template'' := None)\<rparr>)"

definition getOwnerIdKey :: "int \<Rightarrow> string" where
  "getOwnerIdKey chatId = numberToString chatId @ ''_owner_id''"

definition getOwnerId :: "bot_state \<Rightarrow> int \<Rightarrow> jsval option" where
  "getOwnerId st chatId = storage st (getOwnerIdKey chatId)"

definition setOwnerId :: "bot_state \<Rightarrow> int \<Rightarrow> int \<Rightarrow> bot_state" where
  "setOwnerId st chatId ownerId = st\<lparr>storage := (storage st)(getOwnerIdKey chatId \<mapsto> Num ownerId)\<rparr>"

definition removeOwnerId :: "bot_state \<Rightarrow> int \<Rightarrow> bot_state" where
  "removeOwnerId st chatId = st\<lparr>storage := (storage st)(getOwnerIdKey chatId := None)\<rparr>"

section \<open>Helpers and handlers\<close>

text \<open>
  A Telegram message as the handlers read it. \<open>from_user\<close> is the field \<open>from\<close>, which
  Telegram fills for every message of a group or a private chat; \<open>title\<close> is absent in
  a private chat; \<open>left_chat_member\<close> is absent unless a member left.
\<close>

record chat =
  chat_id :: int
  chat_type :: string
  title :: "string option"

record message =
  chat :: chat
  from_user :: user
  new_chat_members :: "user list"
  left_chat_member :: "user option"

definition sendMessage :: "bot_state \<Rightarrow> int \<Rightarrow> string \<Rightarrow> bot_state" where
  "sendMessage st chatId msg = st\<lparr>sent := sent st @ [(chatId, msg)]\<rparr>"

definition sendErrorMessage :: "bot_state \<Rightarrow> int \<Rightarrow> string \<Rightarrow> bot_state" where
  "sendErrorMessage st chatId msg = sendMessage st chatId (composeErrorMessage msg)"

definition isGroup :: "message \<Rightarrow> bool" where
  "isGroup msg = (chat_type (chat msg) \<in> set [''group'', ''supergroup''])"

text \<open>
  A handler returns the exception its promise is rejected with, if any, and the state it
  leaves behind (what it changed before raising stays changed).
\<close>

type_synonym outcome = "error option \<times> bot_state"

definition notGroupHandler :: "bot_state \<Rightarrow> message \<Rightarrow> outcome" where
  "notGroupHandler st msg = (None, sendMessage st (chat_id (chat msg)) ''*Add me to a group first!*'')"

text \<open>
  \<open>BOT_ID\<close> is the number in front of the colon of the API token, a parameter here.
  \<open>msg.new_chat_members[0]\<close> of an empty list is \<open>undefined\<close>, and reading its \<open>id\<close>
  raises.
\<close>

definition newMemberHandler ::
  "int \<Rightarrow> (string option \<Rightarrow> string result) \<Rightarrow> bot_state \<Rightarrow> message \<Rightarrow> outcome" where
  "newMemberHandler BOT_ID esc st msg =
     (let chatId = chat_id (chat msg);
          groupName = title (chat msg)
      in case new_chat_members msg of
           [] \<Rightarrow> (Some TypeError, st)
         | newMember # others \<Rightarrow>
             if user_id newMember = BOT_ID then
               (case composeIntroMessage esc (from_user msg) groupName of
                  Inl e \<Rightarrow> (Some e, st)
                | Inr intro \<Rightarrow>
                    (None, setOwnerId (sendMessage st chatId intro) chatId (user_id (from_user msg))))
             else if \<not> is_bot newMember then
               (case getMsgTemplate st chatId of
                  (Str template, st1) \<Rightarrow>
                    (case composeMessage esc template newMember groupName of
                       Inl e \<Rightarrow> (Some e, st1)
                     | Inr welcomeMessage \<Rightarrow> (None, sendMessage st1 chatId welcomeMessage))
                | (Num n, st1) \<Rightarrow> (Some TypeError, st1))
             else (None, st))"

definition memberLeftHandler :: "int \<Rightarrow> bot_state \<Rightarrow> message \<Rightarrow> outcome" where
  "memberLeftHandler BOT_ID st msg =
     (let chatId = chat_id (chat msg)
      in case left_chat_member msg of
           None \<Rightarrow> (Some TypeError, st)
         | Some member \<Rightarrow>
             if user_id member = BOT_ID
             then (None, removeMsgTemplate (removeOwnerId st chatId) chatId)
             else (None, st))"

definition changeWelcomeMessageEmptyHandler :: "bot_state \<Rightarrow> message \<Rightarrow> outcome" where
  "changeWelcomeMessageEmptyHandler st msg =
     (if \<not> isGroup msg then notGroupHandler st msg
      else (None, sendErrorMessage st (chat_id (chat msg))
                    (''You can'' @ [CHR 0x27] @ ''t set an empty message!'')))"

text \<open>
  \<open>changeWelcomeMessageHandler(msg, match)\<close>; \<open>arg\<close> is \<open>match[1]\<close>, the text the
  command's pattern captured. \<open>owner.id !== ownerId\<close> compares a number with what the
  store returned: they are equal only when the store holds that number.
\<close>

definition changeWelcomeMessageHandler ::
  "(string option \<Rightarrow> string result) \<Rightarrow> bot_state \<Rightarrow> message \<Rightarrow> string \<Rightarrow> outcome" where
  "changeWelcomeMessageHandler esc st msg arg =
     (if \<not> isGroup msg then notGroupHandler st msg
      else
        let chatId = chat_id (chat msg);
            groupName = title (chat msg);
            owner = from_user msg;
            ownerId = getOwnerId st chatId
        in if Some (Num (user_id owner)) \<noteq> ownerId
           then (None, sendErrorMessage st chatId
                         ''Only the user who introduced me to this group can change the message!'')
           else
             let msgTemplate = trim arg
             in if length msgTemplate = 0 then changeWelcomeMessageEmptyHandler st msg
                else
                  let st1 = setMsgTemplate st chatId msgTemplate
                  in case composeMessage esc msgTemplate owner groupName of
                       Inl e \<Rightarrow> (Some e, st1)
                     | Inr exampleMessage \<Rightarrow>
                         (None, sendMessage st1 chatId
                            ([CHR 0xE2, CHR 0x9C, CHR 0x94, CHR 0xEF, CHR 0xB8, CHR 0x8F] @
                             '' New welcome message set! Here'' @ [CHR 0x27] @ ''s an example:'' @
                             [CHR 0x0A, CHR 0x0A] @ exampleMessage)))"

section \<open>Runs of the bot (main.js, run)\<close>

text \<open>
  \<open>run\<close> opens the store and registers the handlers; from then on the state changes
  only when a handler runs, one event after the other. The states of the bot are those
  reached from the first start (nothing in memory, nothing stored) by the handlers, for
  any message and any captured argument. A restart of the process empties
  \<open>msgTemplates\<close> and keeps the store. The help and start handlers only send a message.
\<close>

inductive reachable :: "int \<Rightarrow> (string option \<Rightarrow> string result) \<Rightarrow> bot_state \<Rightarrow> bool"
  for BOT_ID :: int and esc :: "string option \<Rightarrow> string result" where
  start: "reachable BOT_ID esc \<lparr>msgTemplates = Map.empty, storage = Map.empty, sent = []\<rparr>"
| restart: "reachable BOT_ID esc st \<Longrightarrow> reachable BOT_ID esc (st\<lparr>msgTemplates := Map.empty\<rparr>)"
| newMember:
    "reachable BOT_ID esc st \<Longrightarrow> reachable BOT_ID esc (snd (newMemberHandler BOT_ID esc st msg))"
| memberLeft:
    "reachable BOT_ID esc st \<Longrightarrow> reachable BOT_ID esc (snd (memberLeftHandler BOT_ID st msg))"
| changeWelcomeMessage:
    "reachable BOT_ID esc st \<Longrightarrow>
     reachable BOT_ID esc (snd (changeWelcomeMessageHandler esc st msg arg))"
| changeWelcomeMessageEmpty:
    "reachable BOT_ID esc st \<Longrightarrow>
     reachable BOT_ID esc (snd (changeWelcomeMessageEmptyHandler st msg))"
| notice: "reachable BOT_ID esc st \<Longrightarrow> reachable BOT_ID esc (sendMessage st chatId m)"

text \<open>
  A template the bot can use is a string that is not empty. \<open>templatesUsable\<close> says
  that every entry in memory and every value stored under a template key is one.
\<close>

definition usableTemplate :: "jsval \<Rightarrow> bool" where
  "usableTemplate v = (case v of Str t \<Rightarrow> t \<noteq> [] | Num n \<Rightarrow> False)"

definition templatesUsable :: "bot_state \<Rightarrow> bool" where
  "templatesUsable st =
     ((\<forall>c v. msgTemplates st c = Some v \<longrightarrow> usableTemplate v) \<and>
      (\<forall>c v. storage st (getMsgTemplateKey c) = Some v \<longrightarrow> usableTemplate v))"

section \<open>Whitespace as the spec describes it\<close>

text \<open>
  A text that consists only of whitespace: the empty text, or a whitespace character
  followed by such a text. This follows the spec's wording (scenario F), not the code.
\<close>

inductive whitespaceOnly :: "string \<Rightarrow> bool" where
  empty: "whitespaceOnly []"
| more: "w \<in> set whiteSpace \<Longrightarrow> whitespaceOnly s \<Longrightarrow> whitespaceOnly (w @ s)"

section \<open>Sample inputs\<close>

definition bob :: user where
  "bob = \<lparr>user_id = 3, is_bot = False, first_name = ''Bob'', username = Some ''bob''\<rparr>"

text \<open>A member whose first name is the text of a placeholder.\<close>

definition mallory :: user where
  "mallory = \<lparr>user_id = 4, is_bot = False, first_name = ''$groupname'', username = None\<rparr>"

text \<open>A member whose first name is the text of the placeholder that is replaced first.\<close>

definition trent :: user where
  "trent = \<lparr>user_id = 6, is_bot = False, first_name = ''$username'', username = None\<rparr>"

text \<open>The group of the spec's scenarios, its owner Ana (id 1) and a member who is not the owner.\<close>

definition startupHub :: chat where
  "startupHub = \<lparr>chat_id = - 1001, chat_type = ''supergroup'', title = Some ''Startup Hub''\<rparr>"

definition ana :: user where
  "ana = \<lparr>user_id = 1, is_bot = False, first_name = ''Ana'', username = None\<rparr>"

definition carl :: user where
  "carl = \<lparr>user_id = 2, is_bot = False, first_name = ''Carl'', username = Some ''carl''\<rparr>"

definition theBot :: user where
  "theBot = \<lparr>user_id = 777, is_bot = True, first_name = ''Sobat ABP'', username = Some ''abp_bot''\<rparr>"

definition messageFrom :: "user \<Rightarrow> message" where
  "messageFrom u = \<lparr>chat = startupHub, from_user = u, new_chat_members = [], left_chat_member = None\<rparr>"

text \<open>
  States: nothing stored; the group configured by Ana with a template of her own, not
  yet read into memory; and the same with the template in memory.
\<close>

definition fresh :: bot_state where
  "fresh = \<lparr>msgTemplates = Map.empty, storage = Map.empty, sent = []\<rparr>"

definition configured :: bot_state where
  "configured =
     \<lparr>msgTemplates = Map.empty,
      storage = [''-1001_owner_id'' \<mapsto> Num 1, ''-1001_msg_template'' \<mapsto> Str ''Welcome $firstname!''],
      sent = []\<rparr>"

definition warm :: bot_state where
  "warm = configured\<lparr>msgTemplates := [- 1001 \<mapsto> Str ''Welcome $firstname!'']\<rparr>"

text \<open>
  The bot (id 777) is added to the group by Ana, who then sets a template of her own:
  the message of the first event, and the state after both.
\<close>

definition botJoins :: message where
  "botJoins = (messageFrom ana)\<lparr>new_chat_members := [theBot]\<rparr>"

definition afterSetup :: bot_state where
  "afterSetup =
     snd (changeWelcomeMessageHandler markdownEscape
            (snd (newMemberHandler 777 markdownEscape fresh botJoins))
            (messageFrom ana) ''  Welcome $firstname! '')"

section \<open>The message composer: lemmas\<close>

lemma replacePlaceholder_absent:
  "\<not> sublist tok s \<Longrightarrow> replacePlaceholder tok f s = Inr s"
proof (induction s)
  case Nil
  then show ?case by simp
next
  case (Cons c cs)
  from Cons.prems have np: "\<not> prefix tok cs" and ns: "\<not> sublist tok cs"
    by (auto simp: sublist_Cons_right)
  from ns have "replacePlaceholder tok f cs = Inr cs" by (rule Cons.IH)
  with np show ?case by simp
qed

lemma matchName_Some: "matchName s = Some n \<Longrightarrow> n \<in> set placeholderNames \<and> prefix n s"
  by (auto simp: matchName_def find_Some_iff)

lemma replaceEscaped_absent:
  "\<forall>n\<in>set placeholderNames. \<not> sublist (CHR ''$'' # n) s \<Longrightarrow> replaceEscaped f s = Inr s"
proof (induction s)
  case Nil
  then show ?case by simp
next
  case (Cons c cs)
  have ih: "replaceEscaped f cs = Inr cs"
    using Cons.prems by (intro Cons.IH) (auto simp: sublist_Cons_right)
  have "(if prefix ''$$'' (c # cs) then matchName (drop 1 cs) else None) = None"
  proof (rule ccontr)
    assume "\<not> ?thesis"
    then obtain n where p: "prefix ''$$'' (c # cs)" and m: "matchName (drop 1 cs) = Some n"
      by (auto split: if_splits)
    from p have c: "c = CHR ''$''" by simp
    from p c obtain r where cs: "cs = CHR ''$'' # r"
      by (cases cs) simp_all
    from m have "matchName r = Some n" unfolding cs by simp
    then have "n \<in> set placeholderNames" "prefix n r"
      using matchName_Some by blast+
    then have "sublist (CHR ''$'' # n) (c # cs)"
      using cs by (auto simp: sublist_Cons_right)
    with Cons.prems \<open>n \<in> set placeholderNames\<close> show False by blast
  qed
  with ih show ?case by simp
qed


text \<open>The default template rendered for a member whose first name is \<open>$groupname\<close>.\<close>

lemma default_for_mallory:
  "composeMessage markdownEscape DEFAULT_MSG_TEMPLATE mallory (Some ''Startup Hub'')
     = Inr ([CHR 0xF0, CHR 0x9F, CHR 0x91, CHR 0x8B] @
            '' *Selamat bergabung* Startup Hub (@$groupname) di Startup Hub yuk perkenalkan diri dan startup nya ! '' @
            [CHR 0xF0, CHR 0x9F, CHR 0x98, CHR 0x80, CHR 0x0A] @
            ''Kalau sobat memiliki permasalahan tentang startup, feel free to discuss with us '' @
            [CHR 0xF0, CHR 0x9F, CHR 0x98, CHR 0x80])"
  by (simp add: mallory_def markdownEscape_def replacements_def replaceAllChar_def
        composeMessage_def andThen_def truthyString_def matchName_def placeholderNames_def
        DEFAULT_MSG_TEMPLATE_def)

section \<open>The store and the handlers: lemmas\<close>

lemma getMsgTemplateKey_startupHub: "getMsgTemplateKey (- 1001) = ''-1001_msg_template''"
  by (simp add: getMsgTemplateKey_def numberToString_def natToString.simps digitChar_def)

lemma getOwnerIdKey_startupHub: "getOwnerIdKey (- 1001) = ''-1001_owner_id''"
  by (simp add: getOwnerIdKey_def numberToString_def natToString.simps digitChar_def)

lemma default_nonempty: "DEFAULT_MSG_TEMPLATE \<noteq> []"
  by (simp add: DEFAULT_MSG_TEMPLATE_def)

lemma find_unique:
  assumes "w \<in> set xs" and "P w" and "\<forall>v\<in>set xs. P v \<longrightarrow> w = v"
  shows "find P xs = Some w"
  using assms
proof (induction xs)
  case Nil
  then show ?case by simp
next
  case (Cons a xs)
  show ?case
  proof (cases "P a")
    case True
    with Cons.prems(3) have "w = a" by simp
    with True show ?thesis by simp
  next
    case False
    with Cons.prems have a: "w \<in> set xs" by auto
    from Cons.prems(3) have b: "\<forall>v\<in>set xs. P v \<longrightarrow> w = v" by simp
    from Cons.IH [OF a Cons.prems(2) b] False show ?thesis by simp
  qed
qed

lemma asciiWhiteSpace_low:
  "a \<in> set asciiWhiteSpace \<Longrightarrow>
   a \<noteq> CHR 0xC2 \<and> a \<noteq> CHR 0xE1 \<and> a \<noteq> CHR 0xE2 \<and> a \<noteq> CHR 0xE3 \<and> a \<noteq> CHR 0xEF"
  by (auto simp: asciiWhiteSpace_def)

lemma whiteSpace_prefix_free:
  "v \<in> set whiteSpace \<Longrightarrow> w \<in> set whiteSpace \<Longrightarrow> prefix v (w @ s) \<Longrightarrow> w = v"
  unfolding whiteSpace_def by (auto dest: asciiWhiteSpace_low)

lemma find_whiteSpace_prefix:
  assumes "w \<in> set whiteSpace"
  shows "find (\<lambda>v. prefix v (w @ s)) whiteSpace = Some w"
proof (rule find_unique [OF assms])
  show "prefix w (w @ s)" by simp
next
  show "\<forall>v\<in>set whiteSpace. prefix v (w @ s) \<longrightarrow> w = v"
    using assms whiteSpace_prefix_free by blast
qed

lemma trimStart_whitespaceOnly: "whitespaceOnly s \<Longrightarrow> trimStart s = []"
proof (induction rule: whitespaceOnly.induct)
  case empty
  have "find (\<lambda>w. prefix w []) whiteSpace = None"
    by (auto simp: find_None_iff dest: whiteSpace_nonempty)
  then show ?case by (simp add: trimStart.simps [of "[]"])
next
  case (more w s)
  from find_whiteSpace_prefix [OF more.hyps(1), of s] more.IH show ?case
    by (simp add: trimStart.simps [of "w @ s"])
qed

lemma trimEnd_Nil: "trimEnd [] = []"
proof -
  have "find (\<lambda>w. suffix w []) whiteSpace = None"
    by (auto simp: find_None_iff dest: whiteSpace_nonempty)
  then show ?thesis by (simp add: trimEnd.simps [of "[]"])
qed

lemma trim_whitespaceOnly: "whitespaceOnly s \<Longrightarrow> trim s = []"
  by (simp add: trim_def trimStart_whitespaceOnly trimEnd_Nil)

text \<open>
  The only caller of \<open>setMsgTemplate\<close> is the command handler, which has checked
  before that the trimmed template is not empty.
\<close>

lemma changeWelcomeMessageHandler_stores_nonempty:
  assumes "storage (snd (changeWelcomeMessageHandler esc st msg arg)) \<noteq> storage st"
  shows "trim arg \<noteq> [] \<and>
         storage (snd (changeWelcomeMessageHandler esc st msg arg))
           = (storage st)(getMsgTemplateKey (chat_id (chat msg)) \<mapsto> Str (trim arg))"
  using assms
  by (auto simp: changeWelcomeMessageHandler_def changeWelcomeMessageEmptyHandler_def
        notGroupHandler_def sendErrorMessage_def sendMessage_def setMsgTemplate_def Let_def
      split: if_splits sum.splits)

text \<open>
  Every reachable state has usable templates only: each operation that writes a
  template keeps it so, and an owner key is never a template key.
\<close>

lemma keys_differ: "getOwnerIdKey c \<noteq> getMsgTemplateKey c'"
proof
  assume "getOwnerIdKey c = getMsgTemplateKey c'"
  then have "last (getOwnerIdKey c) = last (getMsgTemplateKey c')" by simp
  then show False by (simp add: getOwnerIdKey_def getMsgTemplateKey_def)
qed

lemma usableTemplate_truthy: "usableTemplate v \<Longrightarrow> whenTruthy (Some v) = Some v"
  by (cases v) (simp_all add: usableTemplate_def whenTruthy_def truthy_def)

lemma whenTruthy_None: "whenTruthy None = None"
  by (simp add: whenTruthy_def)

lemma templatesUsable_sendMessage: "templatesUsable st \<Longrightarrow> templatesUsable (sendMessage st c m)"
  by (simp add: templatesUsable_def sendMessage_def)

lemma templatesUsable_setOwnerId: "templatesUsable st \<Longrightarrow> templatesUsable (setOwnerId st c i)"
  using keys_differ [of c] by (simp add: templatesUsable_def setOwnerId_def) metis

lemma templatesUsable_removeOwnerId: "templatesUsable st \<Longrightarrow> templatesUsable (removeOwnerId st c)"
  by (simp add: templatesUsable_def removeOwnerId_def)

lemma templatesUsable_removeMsgTemplate:
  "templatesUsable st \<Longrightarrow> templatesUsable (removeMsgTemplate st c)"
  by (simp add: templatesUsable_def removeMsgTemplate_def)

lemma templatesUsable_setMsgTemplate:
  "templatesUsable st \<Longrightarrow> t \<noteq> [] \<Longrightarrow> templatesUsable (setMsgTemplate st c t)"
  by (simp add: templatesUsable_def setMsgTemplate_def usableTemplate_def)

lemma templatesUsable_getMsgTemplate:
  assumes "templatesUsable st"
  shows "templatesUsable (snd (getMsgTemplate st c))"
proof (cases "msgTemplates st c")
  case (Some v)
  with assms have "usableTemplate v" by (simp add: templatesUsable_def)
  with Some assms show ?thesis by (simp add: getMsgTemplate_def usableTemplate_truthy)
next
  case None
  show ?thesis
  proof (cases "storage st (getMsgTemplateKey c)")
    case (Some v)
    with assms have "usableTemplate v" by (simp add: templatesUsable_def)
    with Some None assms show ?thesis
      by (simp add: getMsgTemplate_def usableTemplate_truthy whenTruthy_None templatesUsable_def)
  next
    case None': None
    with None assms default_nonempty show ?thesis
      by (simp add: getMsgTemplate_def whenTruthy_def templatesUsable_def usableTemplate_def)
  qed
qed

lemma templatesUsable_newMemberHandler:
  assumes "templatesUsable st"
  shows "templatesUsable (snd (newMemberHandler BOT_ID esc st msg))"
proof -
  note g = templatesUsable_getMsgTemplate [OF assms, of "chat_id (chat msg)"]
  show ?thesis
    using assms g
    by (auto simp: newMemberHandler_def Let_def
          intro: templatesUsable_setOwnerId templatesUsable_sendMessage
          split: list.splits sum.splits prod.splits jsval.splits)
qed

lemma templatesUsable_memberLeftHandler:
  "templatesUsable st \<Longrightarrow> templatesUsable (snd (memberLeftHandler BOT_ID st msg))"
  by (auto simp: memberLeftHandler_def Let_def
        intro: templatesUsable_removeMsgTemplate templatesUsable_removeOwnerId
        split: option.splits)

lemma templatesUsable_changeWelcomeMessageEmptyHandler:
  "templatesUsable st \<Longrightarrow> templatesUsable (snd (changeWelcomeMessageEmptyHandler st msg))"
  by (simp add: changeWelcomeMessageEmptyHandler_def notGroupHandler_def sendErrorMessage_def
        templatesUsable_sendMessage)

lemma templatesUsable_changeWelcomeMessageHandler:
  assumes "templatesUsable st"
  shows "templatesUsable (snd (changeWelcomeMessageHandler esc st msg arg))"
proof (cases "isGroup msg \<and>
    getOwnerId st (chat_id (chat msg)) = Some (Num (user_id (from_user msg))) \<and> trim arg \<noteq> []")
  case True
  with assms have "templatesUsable (setMsgTemplate st (chat_id (chat msg)) (trim arg))"
    by (simp add: templatesUsable_setMsgTemplate)
  with True show ?thesis
    by (auto simp: changeWelcomeMessageHandler_def Let_def intro: templatesUsable_sendMessage
          split: sum.splits)
next
  case False
  with assms templatesUsable_changeWelcomeMessageEmptyHandler [OF assms, of msg] show ?thesis
    by (auto simp: changeWelcomeMessageHandler_def Let_def notGroupHandler_def sendErrorMessage_def
          intro: templatesUsable_sendMessage)
qed

lemma reachable_templatesUsable: "reachable BOT_ID esc st \<Longrightarrow> templatesUsable st"
proof (induction rule: reachable.induct)
  case start
  show ?case by (simp add: templatesUsable_def)
next
  case (restart st)
  then show ?case by (simp add: templatesUsable_def)
next
  case (newMember st msg)
  from newMember.IH show ?case by (rule templatesUsable_newMemberHandler)
next
  case (memberLeft st msg)
  from memberLeft.IH show ?case by (rule templatesUsable_memberLeftHandler)
next
  case (changeWelcomeMessage st msg arg)
  from changeWelcomeMessage.IH show ?case by (rule templatesUsable_changeWelcomeMessageHandler)
next
  case (changeWelcomeMessageEmpty st msg)
  from changeWelcomeMessageEmpty.IH show ?case by (rule templatesUsable_changeWelcomeMessageEmptyHandler)
next
  case (notice st chatId m)
  from notice.IH show ?case by (rule templatesUsable_sendMessage)
qed

text \<open>What the command handler writes, and the sample run evaluated.\<close>

lemma trim_sample: "trim ''  Welcome $firstname! '' = ''Welcome $firstname!''"
  by (simp add: trim_def trimStart.simps trimEnd.simps whiteSpace_def asciiWhiteSpace_def
        generalPunctuation_def suffix_to_prefix)

lemma intro_sample:
  "composeIntroMessage markdownEscape ana (Some ''Startup Hub'')
     = Inr ([CHR 0xF0, CHR 0x9F, CHR 0x91, CHR 0x8B] @ '' Hi!'' @ [CHR 0x0A, CHR 0x0A] @
            ''Perkenalkan saya Sobat ABP bot, mulai saat ini saya akan menemani sobat di group Startup Hub'')"
  by (simp add: composeIntroMessage_def INTRO_MSG_def ana_def markdownEscape_def replacements_def
        replaceAllChar_def composeMessage_def andThen_def truthyString_def matchName_def
        placeholderNames_def)

lemma changeWelcomeMessageHandler_write:
  assumes "isGroup msg"
    and "getOwnerId st (chat_id (chat msg)) = Some (Num (user_id (from_user msg)))"
    and "trim arg \<noteq> []"
  shows "msgTemplates (snd (changeWelcomeMessageHandler esc st msg arg))
           = msgTemplates (setMsgTemplate st (chat_id (chat msg)) (trim arg))"
    and "storage (snd (changeWelcomeMessageHandler esc st msg arg))
           = storage (setMsgTemplate st (chat_id (chat msg)) (trim arg))"
  using assms
  by (simp_all add: changeWelcomeMessageHandler_def Let_def sendMessage_def split: sum.splits)

lemma changeWelcomeMessageHandler_no_write:
  assumes "\<not> (isGroup msg \<and>
              getOwnerId st (chat_id (chat msg)) = Some (Num (user_id (from_user msg))) \<and>
              trim arg \<noteq> [])"
  shows "msgTemplates (snd (changeWelcomeMessageHandler esc st msg arg)) = msgTemplates st"
    and "storage (snd (changeWelcomeMessageHandler esc st msg arg)) = storage st"
  using assms
  by (auto simp: changeWelcomeMessageHandler_def changeWelcomeMessageEmptyHandler_def
        notGroupHandler_def sendErrorMessage_def sendMessage_def Let_def)

lemma getMsgTemplate_after_set:
  "t \<noteq> [] \<Longrightarrow> msgTemplates st c = Some (Str t) \<Longrightarrow> getMsgTemplate st c = (Str t, st)"
  by (simp add: getMsgTemplate_def whenTruthy_def truthy_def)

lemma afterSetup_owner:
  "getOwnerId (snd (newMemberHandler 777 markdownEscape fresh botJoins)) (- 1001) = Some (Num 1)"
  by (simp add: newMemberHandler_def botJoins_def messageFrom_def startupHub_def theBot_def
        intro_sample [unfolded ana_def] ana_def setOwnerId_def sendMessage_def getOwnerId_def
        fresh_def Let_def)

lemma afterSetup_templates:
  "msgTemplates afterSetup (- 1001) = Some (Str ''Welcome $firstname!'')"
  "storage afterSetup ''-1001_msg_template'' = Some (Str ''Welcome $firstname!'')"
proof -
  have g: "isGroup (messageFrom ana)" by (simp add: isGroup_def messageFrom_def startupHub_def)
  have o: "getOwnerId (snd (newMemberHandler 777 markdownEscape fresh botJoins))
             (chat_id (chat (messageFrom ana))) = Some (Num (user_id (from_user (messageFrom ana))))"
    using afterSetup_owner by (simp add: messageFrom_def startupHub_def ana_def)
  have t: "trim ''  Welcome $firstname! '' \<noteq> []" by (simp add: trim_sample)
  note w = changeWelcomeMessageHandler_write [OF g o t, of markdownEscape]
  from w(1) show "msgTemplates afterSetup (- 1001) = Some (Str ''Welcome $firstname!'')"
    by (simp add: afterSetup_def setMsgTemplate_def trim_sample messageFrom_def startupHub_def)
  from w(2) show "storage afterSetup ''-1001_msg_template'' = Some (Str ''Welcome $firstname!'')"
    by (simp add: afterSetup_def setMsgTemplate_def trim_sample messageFrom_def startupHub_def
          getMsgTemplateKey_startupHub)
qed

lemma reachable_afterSetup: "reachable 777 markdownEscape afterSetup"
  unfolding afterSetup_def fresh_def
  by (intro reachable.changeWelcomeMessage reachable.newMember reachable.start)

section \<open>The message composer: properties\<close>

text \<open>
  C1 (the code at the input where it departs from the claim). The claim has
  \<open>render("$username", m, g)\<close> be \<open>@\<close> followed by the escaped handle. The pattern
  of the code asks for a character other than \<open>$\<close> in front of the placeholder, and at
  the start of the template there is none: the template \<open>$username\<close> is rendered
  unchanged, for every member, every group name and every escaping function.
\<close>

theorem C1_placeholder_at_start_unchanged:
  "composeMessage esc ''$username'' m g = Inr ''$username''"
  by (simp add: composeMessage_def andThen_def matchName_def placeholderNames_def)

text \<open>
  C2. The doubled-dollar form of each of the four placeholder names renders as one \<open>$\<close>
  followed by the name, whoever the member and whatever the group name: nothing is
  substituted, and no replacement runs after the one that writes the literal. The
  escaping function is taken to leave the four names as they are (they are lower-case
  letters only).
\<close>

theorem C2_doubled_dollar_renders_literal:
  assumes "\<forall>n\<in>set placeholderNames. esc (Some n) = Inr n"
  shows "\<forall>n\<in>set placeholderNames. composeMessage esc (''$$'' @ n) m g = Inr (''$'' @ n)"
  using assms
  by (simp add: placeholderNames_def composeMessage_def andThen_def matchName_def)

theorem C2_witness:
  "markdownEscape (Some ''username'') = Inr ''username'' \<and>
   composeMessage markdownEscape ''$$username'' bob (Some ''Startup Hub'') = Inr ''$username'' \<and>
   composeMessage markdownEscape ''$$safeusername'' bob (Some ''Startup Hub'') = Inr ''$safeusername'' \<and>
   composeMessage markdownEscape ''$$firstname'' mallory None = Inr ''$firstname'' \<and>
   composeMessage markdownEscape ''$$groupname'' mallory None = Inr ''$groupname''"
proof -
  have h: "\<forall>n\<in>set placeholderNames. markdownEscape (Some n) = Inr n"
    by (simp add: placeholderNames_def markdownEscape_def replacements_def replaceAllChar_def)
  from C2_doubled_dollar_renders_literal [OF h, of bob "Some ''Startup Hub''"]
    C2_doubled_dollar_renders_literal [OF h, of mallory None] h
  show ?thesis by (simp add: placeholderNames_def)
qed

text \<open>
  C4. A template in which none of the four tokens \<open>$username\<close>, \<open>$safeusername\<close>,
  \<open>$firstname\<close>, \<open>$groupname\<close> occurs (the doubled-dollar forms contain them, so
  they are excluded too) is rendered unchanged, for every member, group name and
  escaping function; so rendering the output again gives the same string.
\<close>

theorem C4_placeholder_free_template_unchanged:
  assumes "\<forall>n\<in>set placeholderNames. \<not> sublist (CHR ''$'' # n) T"
  shows "composeMessage esc T m g = Inr T \<and>
         andThen (composeMessage esc T m g) (\<lambda>out. composeMessage esc out m g) = Inr T"
proof -
  from assms have a: "\<not> sublist ''$username'' T" "\<not> sublist ''$firstname'' T"
    "\<not> sublist ''$groupname'' T" "\<not> sublist ''$safeusername'' T"
    by (simp_all add: placeholderNames_def)
  have "composeMessage esc T m g = Inr T"
    unfolding composeMessage_def
    by (simp add: andThen_def replacePlaceholder_absent [OF a(1)] replacePlaceholder_absent [OF a(2)]
        replacePlaceholder_absent [OF a(3)] replacePlaceholder_absent [OF a(4)]
        replaceEscaped_absent [OF assms])
  then show ?thesis by (simp add: andThen_def)
qed

theorem C4_witness:
  "\<not> sublist ''$username'' ''Hi $user, this costs 5$ ($$)'' \<and>
   \<not> sublist ''$safeusername'' ''Hi $user, this costs 5$ ($$)'' \<and>
   \<not> sublist ''$firstname'' ''Hi $user, this costs 5$ ($$)'' \<and>
   \<not> sublist ''$groupname'' ''Hi $user, this costs 5$ ($$)'' \<and>
   composeMessage markdownEscape ''Hi $user, this costs 5$ ($$)'' bob (Some ''Startup Hub'')
     = Inr ''Hi $user, this costs 5$ ($$)''"
proof -
  have h: "\<forall>n\<in>set placeholderNames. \<not> sublist (CHR ''$'' # n) ''Hi $user, this costs 5$ ($$)''"
    by (simp add: placeholderNames_def sublist_Cons_right)
  from C4_placeholder_free_template_unchanged [OF h, of markdownEscape bob "Some ''Startup Hub''"] h
  show ?thesis by (simp add: placeholderNames_def)
qed

text \<open>
  C3 (the code at inputs where it departs from the claim). The claim has no later
  replacement match text that an earlier one wrote, whatever the values contain. A
  member whose first name is \<open>$groupname\<close> joins the group \<open>Startup Hub\<close>: the escaped
  first name is still \<open>$groupname\<close>, the second replacement writes it into the message
  and the third expands it to the group's name, in \<open>Hi $firstname!\<close> as in the bot's
  default template, which is what the new-member handler sends when she joins (there
  the same first name, written by the fourth replacement for \<open>$safeusername\<close>, stays
  as it is). A first name \<open>$username\<close> stays as it is as well, because its replacement
  has already run.
\<close>

theorem C3_first_name_expanded_again:
  "markdownEscape (Some (first_name mallory)) = Inr ''$groupname'' \<and>
   composeMessage markdownEscape ''Hi $firstname!'' mallory (Some ''Startup Hub'')
     = Inr ''Hi Startup Hub!'' \<and>
   composeMessage markdownEscape DEFAULT_MSG_TEMPLATE mallory (Some ''Startup Hub'')
     = Inr ([CHR 0xF0, CHR 0x9F, CHR 0x91, CHR 0x8B] @
            '' *Selamat bergabung* Startup Hub (@$groupname) di Startup Hub yuk perkenalkan diri dan startup nya ! '' @
            [CHR 0xF0, CHR 0x9F, CHR 0x98, CHR 0x80, CHR 0x0A] @
            ''Kalau sobat memiliki permasalahan tentang startup, feel free to discuss with us '' @
            [CHR 0xF0, CHR 0x9F, CHR 0x98, CHR 0x80]) \<and>
   sent (snd (newMemberHandler 777 markdownEscape fresh ((messageFrom ana)\<lparr>new_chat_members := [mallory]\<rparr>)))
     = [(- 1001,
         [CHR 0xF0, CHR 0x9F, CHR 0x91, CHR 0x8B] @
         '' *Selamat bergabung* Startup Hub (@$groupname) di Startup Hub yuk perkenalkan diri dan startup nya ! '' @
         [CHR 0xF0, CHR 0x9F, CHR 0x98, CHR 0x80, CHR 0x0A] @
         ''Kalau sobat memiliki permasalahan tentang startup, feel free to discuss with us '' @
         [CHR 0xF0, CHR 0x9F, CHR 0x98, CHR 0x80])] \<and>
   composeMessage markdownEscape ''Hi $firstname!'' trent (Some ''Startup Hub'')
     = Inr ''Hi $username!''"
proof -
  have a: "markdownEscape (Some (first_name mallory)) = Inr ''$groupname''"
    "composeMessage markdownEscape ''Hi $firstname!'' mallory (Some ''Startup Hub'')
       = Inr ''Hi Startup Hub!''"
    "composeMessage markdownEscape ''Hi $firstname!'' trent (Some ''Startup Hub'')
       = Inr ''Hi $username!''"
    by (simp_all add: mallory_def trent_def markdownEscape_def replacements_def replaceAllChar_def
          composeMessage_def andThen_def truthyString_def matchName_def placeholderNames_def)
  have g: "getMsgTemplate fresh (- 1001)
             = (Str DEFAULT_MSG_TEMPLATE, fresh\<lparr>msgTemplates := [- 1001 \<mapsto> Str DEFAULT_MSG_TEMPLATE]\<rparr>)"
    by (simp add: getMsgTemplate_def fresh_def whenTruthy_def)
  have sf: "sent fresh = []" by (simp add: fresh_def)
  have m: "user_id mallory \<noteq> 777" "\<not> is_bot mallory" by (simp_all add: mallory_def)
  have h: "sent (snd (newMemberHandler 777 markdownEscape fresh ((messageFrom ana)\<lparr>new_chat_members := [mallory]\<rparr>)))
     = [(- 1001,
         [CHR 0xF0, CHR 0x9F, CHR 0x91, CHR 0x8B] @
         '' *Selamat bergabung* Startup Hub (@$groupname) di Startup Hub yuk perkenalkan diri dan startup nya ! '' @
         [CHR 0xF0, CHR 0x9F, CHR 0x98, CHR 0x80, CHR 0x0A] @
         ''Kalau sobat memiliki permasalahan tentang startup, feel free to discuss with us '' @
         [CHR 0xF0, CHR 0x9F, CHR 0x98, CHR 0x80])]"
    using m sf
    by (simp add: newMemberHandler_def Let_def messageFrom_def startupHub_def g default_for_mallory
          sendMessage_def)
  from a default_for_mallory h show ?thesis by blast
qed

section \<open>The store and the handlers: properties\<close>

text \<open>
  C5. In every state the bot can reach, \<open>getMsgTemplate\<close> returns a string that is
  not empty and never writes to the store: it returns the entry in memory when there
  is one; otherwise the value stored under \<open><chatId>_msg_template\<close> when there is one,
  which it also puts into memory; otherwise the default template, which it puts into
  memory and does not store.
\<close>

theorem C5_getMsgTemplate_read_through:
  assumes "reachable BOT_ID esc st"
  shows "(\<exists>t. t \<noteq> [] \<and> fst (getMsgTemplate st chatId) = Str t) \<and>
         storage (snd (getMsgTemplate st chatId)) = storage st \<and>
         (\<forall>v. msgTemplates st chatId = Some v \<longrightarrow> getMsgTemplate st chatId = (v, st)) \<and>
         (\<forall>v. msgTemplates st chatId = None \<and> storage st (getMsgTemplateKey chatId) = Some v \<longrightarrow>
              getMsgTemplate st chatId
                = (v, st\<lparr>msgTemplates := (msgTemplates st)(chatId \<mapsto> v)\<rparr>)) \<and>
         (msgTemplates st chatId = None \<and> storage st (getMsgTemplateKey chatId) = None \<longrightarrow>
              getMsgTemplate st chatId
                = (Str DEFAULT_MSG_TEMPLATE,
                   st\<lparr>msgTemplates := (msgTemplates st)(chatId \<mapsto> Str DEFAULT_MSG_TEMPLATE)\<rparr>))"
proof -
  from assms have inv: "templatesUsable st" by (rule reachable_templatesUsable)
  have hit: "getMsgTemplate st chatId = (v, st)" if "msgTemplates st chatId = Some v" for v
  proof -
    from inv that have "usableTemplate v" by (simp add: templatesUsable_def)
    with that show ?thesis by (simp add: getMsgTemplate_def usableTemplate_truthy)
  qed
  have stored: "getMsgTemplate st chatId = (v, st\<lparr>msgTemplates := (msgTemplates st)(chatId \<mapsto> v)\<rparr>)"
    if "msgTemplates st chatId = None" "storage st (getMsgTemplateKey chatId) = Some v" for v
  proof -
    from inv that(2) have "usableTemplate v" by (simp add: templatesUsable_def)
    with that show ?thesis by (simp add: getMsgTemplate_def usableTemplate_truthy whenTruthy_None)
  qed
  have dflt: "getMsgTemplate st chatId
                = (Str DEFAULT_MSG_TEMPLATE,
                   st\<lparr>msgTemplates := (msgTemplates st)(chatId \<mapsto> Str DEFAULT_MSG_TEMPLATE)\<rparr>)"
    if "msgTemplates st chatId = None" "storage st (getMsgTemplateKey chatId) = None"
    using that by (simp add: getMsgTemplate_def whenTruthy_def)
  have str: "\<exists>t. t \<noteq> [] \<and> fst (getMsgTemplate st chatId) = Str t"
  proof (cases "msgTemplates st chatId")
    case (Some v)
    from inv Some have "usableTemplate v" by (simp add: templatesUsable_def)
    with hit [OF Some] show ?thesis by (cases v) (simp_all add: usableTemplate_def)
  next
    case None
    show ?thesis
    proof (cases "storage st (getMsgTemplateKey chatId)")
      case (Some v)
      from inv Some have "usableTemplate v" by (simp add: templatesUsable_def)
      with stored [OF None Some] show ?thesis by (cases v) (simp_all add: usableTemplate_def)
    next
      case None': None
      from dflt [OF None None'] default_nonempty show ?thesis by simp
    qed
  qed
  have sto: "storage (snd (getMsgTemplate st chatId)) = storage st"
    by (simp add: getMsgTemplate_def split: option.splits)
  from str sto hit stored dflt show ?thesis by blast
qed

theorem C5_witness:
  "getMsgTemplate fresh (- 1001)
     = (Str DEFAULT_MSG_TEMPLATE, fresh\<lparr>msgTemplates := [- 1001 \<mapsto> Str DEFAULT_MSG_TEMPLATE]\<rparr>) \<and>
   getMsgTemplate afterSetup (- 1001) = (Str ''Welcome $firstname!'', afterSetup) \<and>
   getMsgTemplate (afterSetup\<lparr>msgTemplates := Map.empty\<rparr>) (- 1001)
     = (Str ''Welcome $firstname!'',
        afterSetup\<lparr>msgTemplates := [- 1001 \<mapsto> Str ''Welcome $firstname!'']\<rparr>)"
proof -
  have r0: "reachable 777 markdownEscape fresh"
    unfolding fresh_def by (rule reachable.start)
  have r2: "reachable 777 markdownEscape (afterSetup\<lparr>msgTemplates := Map.empty\<rparr>)"
    by (rule reachable.restart [OF reachable_afterSetup])
  from C5_getMsgTemplate_read_through [OF r0, of "- 1001"]
  have a: "getMsgTemplate fresh (- 1001)
     = (Str DEFAULT_MSG_TEMPLATE, fresh\<lparr>msgTemplates := [- 1001 \<mapsto> Str DEFAULT_MSG_TEMPLATE]\<rparr>)"
    by (simp add: fresh_def)
  from C5_getMsgTemplate_read_through [OF reachable_afterSetup, of "- 1001"] afterSetup_templates(1)
  have b: "getMsgTemplate afterSetup (- 1001) = (Str ''Welcome $firstname!'', afterSetup)"
    by blast
  from C5_getMsgTemplate_read_through [OF r2, of "- 1001"] afterSetup_templates(2)
  have c: "getMsgTemplate (afterSetup\<lparr>msgTemplates := Map.empty\<rparr>) (- 1001)
     = (Str ''Welcome $firstname!'',
        afterSetup\<lparr>msgTemplates := [- 1001 \<mapsto> Str ''Welcome $firstname!'']\<rparr>)"
    by (simp add: getMsgTemplateKey_startupHub)
  from a b c show ?thesis by simp
qed

text \<open>
  C6. After \<open>setMsgTemplate\<close> the entry in memory and the stored value of the chat are
  both the template written. The command handler is the only caller: it calls
  \<open>setMsgTemplate\<close> exactly when the command comes from the owner inside a group with
  an argument that is not empty after trimming, and then with the trimmed argument;
  after it, memory and store hold that template and \<open>getMsgTemplate\<close> returns it and
  leaves the state as it is. In every other case the handler leaves memory and store
  untouched.
\<close>

theorem C6_mirror_equals_store_after_write:
  "msgTemplates (setMsgTemplate st chatId t) chatId = Some (Str t) \<and>
   storage (setMsgTemplate st chatId t) (getMsgTemplateKey chatId) = Some (Str t) \<and>
   (t \<noteq> [] \<longrightarrow>
      getMsgTemplate (setMsgTemplate st chatId t) chatId = (Str t, setMsgTemplate st chatId t)) \<and>
   (if isGroup msg \<and>
       getOwnerId st (chat_id (chat msg)) = Some (Num (user_id (from_user msg))) \<and>
       trim arg \<noteq> []
    then msgTemplates (snd (changeWelcomeMessageHandler esc st msg arg))
           = msgTemplates (setMsgTemplate st (chat_id (chat msg)) (trim arg)) \<and>
         storage (snd (changeWelcomeMessageHandler esc st msg arg))
           = storage (setMsgTemplate st (chat_id (chat msg)) (trim arg)) \<and>
         msgTemplates (snd (changeWelcomeMessageHandler esc st msg arg)) (chat_id (chat msg))
           = Some (Str (trim arg)) \<and>
         storage (snd (changeWelcomeMessageHandler esc st msg arg))
           (getMsgTemplateKey (chat_id (chat msg))) = Some (Str (trim arg)) \<and>
         getMsgTemplate (snd (changeWelcomeMessageHandler esc st msg arg)) (chat_id (chat msg))
           = (Str (trim arg), snd (changeWelcomeMessageHandler esc st msg arg))
    else msgTemplates (snd (changeWelcomeMessageHandler esc st msg arg)) = msgTemplates st \<and>
         storage (snd (changeWelcomeMessageHandler esc st msg arg)) = storage st)"
  (is "?set1 \<and> ?set2 \<and> ?get \<and> (if ?called then ?written else ?untouched)")
proof -
  have set: "msgTemplates (setMsgTemplate st' c u) c = Some (Str u)"
    "storage (setMsgTemplate st' c u) (getMsgTemplateKey c) = Some (Str u)" for st' c u
    by (simp_all add: setMsgTemplate_def)
  have get: ?get
  proof
    assume "t \<noteq> []"
    then show "getMsgTemplate (setMsgTemplate st chatId t) chatId = (Str t, setMsgTemplate st chatId t)"
      using set(1) by (rule getMsgTemplate_after_set)
  qed
  have handler: "if ?called then ?written else ?untouched"
  proof (cases ?called)
    case True
    then have g: "isGroup msg"
      and o: "getOwnerId st (chat_id (chat msg)) = Some (Num (user_id (from_user msg)))"
      and t: "trim arg \<noteq> []" by simp_all
    note w = changeWelcomeMessageHandler_write [OF g o t, of esc]
    have m: "msgTemplates (snd (changeWelcomeMessageHandler esc st msg arg)) (chat_id (chat msg))
           = Some (Str (trim arg))"
      by (simp add: w(1) set(1))
    have s: "storage (snd (changeWelcomeMessageHandler esc st msg arg))
           (getMsgTemplateKey (chat_id (chat msg))) = Some (Str (trim arg))"
      by (simp add: w(2) set(2))
    from w m s getMsgTemplate_after_set [OF t m] have wr: ?written by blast
    show ?thesis by (subst if_P [OF True]) (rule wr)
  next
    case False
    from changeWelcomeMessageHandler_no_write [OF False, of esc] have un: ?untouched by blast
    show ?thesis by (subst if_not_P [OF False]) (rule un)
  qed
  from set [of st chatId t] get handler show ?thesis by blast
qed

theorem C6_witness:
  "msgTemplates afterSetup (- 1001) = Some (Str ''Welcome $firstname!'') \<and>
   storage afterSetup ''-1001_msg_template'' = Some (Str ''Welcome $firstname!'') \<and>
   getMsgTemplate afterSetup (- 1001) = (Str ''Welcome $firstname!'', afterSetup)"
proof -
  let ?st = "snd (newMemberHandler 777 markdownEscape fresh botJoins)"
  let ?arg = "''  Welcome $firstname! ''"
  let ?st' = "snd (changeWelcomeMessageHandler markdownEscape ?st (messageFrom ana) ?arg)"
  have g: "isGroup (messageFrom ana)" by (simp add: isGroup_def messageFrom_def startupHub_def)
  have o: "getOwnerId ?st (chat_id (chat (messageFrom ana)))
             = Some (Num (user_id (from_user (messageFrom ana))))"
    using afterSetup_owner by (simp add: messageFrom_def startupHub_def ana_def)
  have t: "trim ?arg \<noteq> []" by (simp add: trim_sample)
  from g o t have called: "isGroup (messageFrom ana) \<and>
       getOwnerId ?st (chat_id (chat (messageFrom ana)))
         = Some (Num (user_id (from_user (messageFrom ana)))) \<and> trim ?arg \<noteq> []"
    by blast
  have c: "chat_id (chat (messageFrom ana)) = - 1001" by (simp add: messageFrom_def startupHub_def)
  from C6_mirror_equals_store_after_write [where esc = markdownEscape and st = ?st
      and msg = "messageFrom ana" and arg = ?arg and chatId = 0 and t = "[]"]
  have "if isGroup (messageFrom ana) \<and>
       getOwnerId ?st (chat_id (chat (messageFrom ana)))
         = Some (Num (user_id (from_user (messageFrom ana)))) \<and> trim ?arg \<noteq> []
     then msgTemplates ?st' = msgTemplates (setMsgTemplate ?st (chat_id (chat (messageFrom ana))) (trim ?arg)) \<and>
          storage ?st' = storage (setMsgTemplate ?st (chat_id (chat (messageFrom ana))) (trim ?arg)) \<and>
          msgTemplates ?st' (chat_id (chat (messageFrom ana))) = Some (Str (trim ?arg)) \<and>
          storage ?st' (getMsgTemplateKey (chat_id (chat (messageFrom ana)))) = Some (Str (trim ?arg)) \<and>
          getMsgTemplate ?st' (chat_id (chat (messageFrom ana))) = (Str (trim ?arg), ?st')
     else msgTemplates ?st' = msgTemplates ?st \<and> storage ?st' = storage ?st"
    by blast
  then have "msgTemplates ?st' (chat_id (chat (messageFrom ana))) = Some (Str (trim ?arg)) \<and>
          storage ?st' (getMsgTemplateKey (chat_id (chat (messageFrom ana)))) = Some (Str (trim ?arg)) \<and>
          getMsgTemplate ?st' (chat_id (chat (messageFrom ana))) = (Str (trim ?arg), ?st')"
    unfolding if_P [OF called] by blast
  then show ?thesis
    unfolding c trim_sample getMsgTemplateKey_startupHub afterSetup_def .
qed

text \<open>
  C7 (as amended). A member who is not the stored owner of the chat (or when no owner
  is stored) sends the change-welcome-message command inside a group. With an argument
  the command is handled by \<open>changeWelcomeMessageHandler\<close>, which sends the
  permission-denied error; without an argument it is handled by
  \<open>changeWelcomeMessageEmptyHandler\<close>, which sends the empty-message error. Either way
  the store, the templates in memory and the owner id are as before.
\<close>

theorem C7_non_owner_changes_nothing:
  assumes "isGroup msg"
    and "getOwnerId st (chat_id (chat msg)) \<noteq> Some (Num (user_id (from_user msg)))"
  shows "changeWelcomeMessageHandler esc st msg arg
           = (None, st\<lparr>sent := sent st @
                [(chat_id (chat msg),
                  [CHR 0xE2, CHR 0x9A, CHR 0xA0, CHR 0xEF, CHR 0xB8, CHR 0x8F] @
                  '' *Beep, boop, error!* Only the user who introduced me to this group can change the message!'')]\<rparr>) \<and>
         changeWelcomeMessageEmptyHandler st msg
           = (None, st\<lparr>sent := sent st @
                [(chat_id (chat msg),
                  [CHR 0xE2, CHR 0x9A, CHR 0xA0, CHR 0xEF, CHR 0xB8, CHR 0x8F] @
                  '' *Beep, boop, error!* You can'' @ [CHR 0x27] @ ''t set an empty message!'')]\<rparr>) \<and>
         storage (snd (changeWelcomeMessageHandler esc st msg arg)) = storage st \<and>
         msgTemplates (snd (changeWelcomeMessageHandler esc st msg arg)) = msgTemplates st \<and>
         getOwnerId (snd (changeWelcomeMessageHandler esc st msg arg)) (chat_id (chat msg))
           = getOwnerId st (chat_id (chat msg)) \<and>
         storage (snd (changeWelcomeMessageEmptyHandler st msg)) = storage st \<and>
         msgTemplates (snd (changeWelcomeMessageEmptyHandler st msg)) = msgTemplates st \<and>
         getOwnerId (snd (changeWelcomeMessageEmptyHandler st msg)) (chat_id (chat msg))
           = getOwnerId st (chat_id (chat msg))"
proof -
  from assms(2) have "Some (Num (user_id (from_user msg))) \<noteq> getOwnerId st (chat_id (chat msg))"
    by (rule not_sym)
  with assms(1) show ?thesis
    by (simp add: changeWelcomeMessageHandler_def changeWelcomeMessageEmptyHandler_def
          sendErrorMessage_def sendMessage_def getOwnerId_def composeErrorMessage_def
          ERROR_MESSAGE_PREFIX_def)
qed

theorem C7_witness:
  "changeWelcomeMessageHandler markdownEscape configured (messageFrom carl) ''Hello $firstname''
     = (None, configured\<lparr>sent :=
          [(- 1001,
            [CHR 0xE2, CHR 0x9A, CHR 0xA0, CHR 0xEF, CHR 0xB8, CHR 0x8F] @
            '' *Beep, boop, error!* Only the user who introduced me to this group can change the message!'')]\<rparr>)"
proof -
  have g: "isGroup (messageFrom carl)"
    by (simp add: isGroup_def messageFrom_def startupHub_def)
  have o: "getOwnerId configured (chat_id (chat (messageFrom carl)))
             \<noteq> Some (Num (user_id (from_user (messageFrom carl))))"
    by (simp add: getOwnerId_def messageFrom_def startupHub_def carl_def configured_def
          getOwnerIdKey_startupHub)
  from C7_non_owner_changes_nothing [OF g o, of markdownEscape "''Hello $firstname''"] show ?thesis
    by (simp add: messageFrom_def startupHub_def configured_def)
qed

text \<open>
  C7 (counterexample). Carl, who is not the owner, sends the bare command. Only the
  pattern for the command without argument matches it (main.js, lines 244 and 245),
  its handler reads no owner, and the message sent is the empty-message error, not
  the permission-denied error.
\<close>

theorem C7_counterexample:
  "isGroup (messageFrom carl) \<and>
   getOwnerId configured (- 1001) = Some (Num 1) \<and> user_id carl = 2 \<and>
   changeWelcomeMessageEmptyHandler configured (messageFrom carl)
     = (None, configured\<lparr>sent :=
          [(- 1001,
            [CHR 0xE2, CHR 0x9A, CHR 0xA0, CHR 0xEF, CHR 0xB8, CHR 0x8F] @
            '' *Beep, boop, error!* You can'' @ [CHR 0x27] @ ''t set an empty message!'')]\<rparr>) \<and>
   composeErrorMessage (''You can'' @ [CHR 0x27] @ ''t set an empty message!'')
     \<noteq> composeErrorMessage ''Only the user who introduced me to this group can change the message!''"
  by (simp add: changeWelcomeMessageEmptyHandler_def isGroup_def messageFrom_def startupHub_def
        carl_def configured_def getOwnerId_def getOwnerIdKey_startupHub sendErrorMessage_def
        sendMessage_def composeErrorMessage_def ERROR_MESSAGE_PREFIX_def)

text \<open>
  C8 (as amended). A change-welcome-message command inside a group whose argument is
  empty or only whitespace never writes: the store and the templates in memory are as
  before. The empty-message error is sent when the sender is the stored owner, and by
  the handler of the command without argument for every sender; a sender who is not the
  owner gets the permission-denied error, because ownership is checked first.
\<close>

theorem C8_whitespace_argument:
  assumes "isGroup msg" and "whitespaceOnly arg"
  shows "storage (snd (changeWelcomeMessageHandler esc st msg arg)) = storage st \<and>
         msgTemplates (snd (changeWelcomeMessageHandler esc st msg arg)) = msgTemplates st \<and>
         (getOwnerId st (chat_id (chat msg)) = Some (Num (user_id (from_user msg))) \<longrightarrow>
            changeWelcomeMessageHandler esc st msg arg
              = (None, st\<lparr>sent := sent st @
                   [(chat_id (chat msg),
                     composeErrorMessage (''You can'' @ [CHR 0x27] @ ''t set an empty message!''))]\<rparr>)) \<and>
         (getOwnerId st (chat_id (chat msg)) \<noteq> Some (Num (user_id (from_user msg))) \<longrightarrow>
            changeWelcomeMessageHandler esc st msg arg
              = (None, st\<lparr>sent := sent st @
                   [(chat_id (chat msg),
                     composeErrorMessage
                       ''Only the user who introduced me to this group can change the message!'')]\<rparr>)) \<and>
         changeWelcomeMessageEmptyHandler st msg
           = (None, st\<lparr>sent := sent st @
                [(chat_id (chat msg),
                  composeErrorMessage (''You can'' @ [CHR 0x27] @ ''t set an empty message!''))]\<rparr>)"
proof -
  from assms(2) have t: "trim arg = []" by (rule trim_whitespaceOnly)
  have e: "changeWelcomeMessageEmptyHandler st msg
           = (None, st\<lparr>sent := sent st @
                [(chat_id (chat msg),
                  composeErrorMessage (''You can'' @ [CHR 0x27] @ ''t set an empty message!''))]\<rparr>)"
    using assms(1)
    by (simp add: changeWelcomeMessageEmptyHandler_def sendErrorMessage_def sendMessage_def)
  show ?thesis
  proof (cases "getOwnerId st (chat_id (chat msg)) = Some (Num (user_id (from_user msg)))")
    case True
    then have "changeWelcomeMessageHandler esc st msg arg = changeWelcomeMessageEmptyHandler st msg"
      using assms(1) t by (simp add: changeWelcomeMessageHandler_def)
    with e True show ?thesis by simp
  next
    case False
    then have "Some (Num (user_id (from_user msg))) \<noteq> getOwnerId st (chat_id (chat msg))"
      by (rule not_sym)
    then have "changeWelcomeMessageHandler esc st msg arg
              = (None, st\<lparr>sent := sent st @
                   [(chat_id (chat msg),
                     composeErrorMessage
                       ''Only the user who introduced me to this group can change the message!'')]\<rparr>)"
      using assms(1)
      by (simp add: changeWelcomeMessageHandler_def sendErrorMessage_def sendMessage_def)
    with e False show ?thesis by simp
  qed
qed

theorem C8_witness:
  "changeWelcomeMessageHandler markdownEscape configured (messageFrom ana) ''  ''
     = (None, configured\<lparr>sent :=
          [(- 1001, composeErrorMessage (''You can'' @ [CHR 0x27] @ ''t set an empty message!''))]\<rparr>)"
proof -
  have g: "isGroup (messageFrom ana)"
    by (simp add: isGroup_def messageFrom_def startupHub_def)
  have "whitespaceOnly ('' '' @ '' '' @ [])"
    by (intro whitespaceOnly.intros) (simp_all add: whiteSpace_def asciiWhiteSpace_def)
  then have w: "whitespaceOnly ''  ''" by simp
  from C8_whitespace_argument [OF g w, of markdownEscape configured] show ?thesis
    by (simp add: getOwnerId_def messageFrom_def startupHub_def ana_def configured_def getOwnerIdKey_startupHub)
qed

text \<open>
  C8 (counterexample). Carl, who is not the owner, sends the command with two blanks as
  its argument: the message sent is the permission-denied error, not the
  empty-message error.
\<close>

theorem C8_counterexample:
  "trim ''  '' = [] \<and>
   changeWelcomeMessageHandler markdownEscape configured (messageFrom carl) ''  ''
     = (None, configured\<lparr>sent :=
          [(- 1001, composeErrorMessage
              ''Only the user who introduced me to this group can change the message!'')]\<rparr>) \<and>
   composeErrorMessage ''Only the user who introduced me to this group can change the message!''
     \<noteq> composeErrorMessage (''You can'' @ [CHR 0x27] @ ''t set an empty message!'')"
proof -
  have "whitespaceOnly ('' '' @ '' '' @ [])"
    by (intro whitespaceOnly.intros) (simp_all add: whiteSpace_def asciiWhiteSpace_def)
  then have "trim ''  '' = []" using trim_whitespaceOnly by simp
  then show ?thesis
    by (simp add: changeWelcomeMessageHandler_def isGroup_def messageFrom_def startupHub_def
          carl_def configured_def getOwnerId_def getOwnerIdKey_startupHub sendErrorMessage_def sendMessage_def
          composeErrorMessage_def)
qed

text \<open>
  C9. When the member who left is the bot itself, the owner id and the template of the
  chat are removed, from the store and from memory: afterwards \<open>getOwnerId\<close> finds
  nothing and \<open>getMsgTemplate\<close> returns the default template.
\<close>

theorem C9_bot_removed:
  assumes "left_chat_member msg = Some member" and "user_id member = BOT_ID"
  shows "(let st' = snd (memberLeftHandler BOT_ID st msg); chatId = chat_id (chat msg)
          in fst (memberLeftHandler BOT_ID st msg) = None \<and>
             getOwnerId st' chatId = None \<and>
             msgTemplates st' chatId = None \<and>
             storage st' (getMsgTemplateKey chatId) = None \<and>
             fst (getMsgTemplate st' chatId) = Str DEFAULT_MSG_TEMPLATE)"
  using assms
  by (simp add: memberLeftHandler_def removeMsgTemplate_def removeOwnerId_def getOwnerId_def
        getMsgTemplate_def getMsgTemplateKey_def whenTruthy_def Let_def)

theorem C9_witness:
  "getOwnerId (snd (memberLeftHandler 777 warm ((messageFrom carl)\<lparr>left_chat_member := Some theBot\<rparr>)))
     (- 1001) = None \<and>
   fst (getMsgTemplate
         (snd (memberLeftHandler 777 warm ((messageFrom carl)\<lparr>left_chat_member := Some theBot\<rparr>)))
         (- 1001)) = Str DEFAULT_MSG_TEMPLATE"
proof -
  have a: "left_chat_member ((messageFrom carl)\<lparr>left_chat_member := Some theBot\<rparr>) = Some theBot"
    by simp
  have b: "user_id theBot = 777" by (simp add: theBot_def)
  from C9_bot_removed [OF a b, of warm] show ?thesis
    by (simp add: Let_def messageFrom_def startupHub_def)
qed

text \<open>
  C10. The new-member handler reads only the first element of the list of new members:
  an event with further members has the same outcome as the event with the first one
  alone. At most one message is sent; when the first member is neither the bot itself
  nor another bot, it is the welcome message composed for that member, and the store
  is not written; when it is the bot itself, it is the introduction and the sender
  becomes the owner; when it is another bot, nothing happens.
\<close>

theorem C10_only_first_new_member:
  "newMemberHandler BOT_ID esc st (msg\<lparr>new_chat_members := u # others\<rparr>)
     = newMemberHandler BOT_ID esc st (msg\<lparr>new_chat_members := [u]\<rparr>) \<and>
   length (sent (snd (newMemberHandler BOT_ID esc st (msg\<lparr>new_chat_members := u # others\<rparr>))))
     \<le> Suc (length (sent st)) \<and>
   (user_id u \<noteq> BOT_ID \<and> \<not> is_bot u \<and>
    fst (getMsgTemplate st (chat_id (chat msg))) = Str t \<and>
    composeMessage esc t u (title (chat msg)) = Inr greeting \<longrightarrow>
      fst (newMemberHandler BOT_ID esc st (msg\<lparr>new_chat_members := u # others\<rparr>)) = None \<and>
      sent (snd (newMemberHandler BOT_ID esc st (msg\<lparr>new_chat_members := u # others\<rparr>)))
        = sent st @ [(chat_id (chat msg), greeting)] \<and>
      storage (snd (newMemberHandler BOT_ID esc st (msg\<lparr>new_chat_members := u # others\<rparr>)))
        = storage st) \<and>
   (user_id u = BOT_ID \<and>
    composeIntroMessage esc (from_user msg) (title (chat msg)) = Inr intro \<longrightarrow>
      newMemberHandler BOT_ID esc st (msg\<lparr>new_chat_members := u # others\<rparr>)
        = (None, setOwnerId (sendMessage st (chat_id (chat msg)) intro) (chat_id (chat msg))
                   (user_id (from_user msg)))) \<and>
   (user_id u \<noteq> BOT_ID \<and> is_bot u \<longrightarrow>
      newMemberHandler BOT_ID esc st (msg\<lparr>new_chat_members := u # others\<rparr>) = (None, st))"
proof -
  have same: "newMemberHandler BOT_ID esc st (msg\<lparr>new_chat_members := u # others\<rparr>)
     = newMemberHandler BOT_ID esc st (msg\<lparr>new_chat_members := [u]\<rparr>)"
    by (simp add: newMemberHandler_def Let_def split: sum.splits)
  have s: "sent (snd (getMsgTemplate st (chat_id (chat msg)))) = sent st"
    "storage (snd (getMsgTemplate st (chat_id (chat msg)))) = storage st"
    by (simp_all add: getMsgTemplate_def split: option.splits)
  have atMost: "length (sent (snd (newMemberHandler BOT_ID esc st (msg\<lparr>new_chat_members := u # others\<rparr>))))
     \<le> Suc (length (sent st))"
    using s
    by (auto simp: newMemberHandler_def Let_def sendMessage_def setOwnerId_def
          split: sum.splits prod.splits jsval.splits)
  have nonbot: "fst (newMemberHandler BOT_ID esc st (msg\<lparr>new_chat_members := u # others\<rparr>)) = None \<and>
      sent (snd (newMemberHandler BOT_ID esc st (msg\<lparr>new_chat_members := u # others\<rparr>)))
        = sent st @ [(chat_id (chat msg), greeting)] \<and>
      storage (snd (newMemberHandler BOT_ID esc st (msg\<lparr>new_chat_members := u # others\<rparr>)))
        = storage st"
    if "user_id u \<noteq> BOT_ID" "\<not> is_bot u" "fst (getMsgTemplate st (chat_id (chat msg))) = Str t"
      "composeMessage esc t u (title (chat msg)) = Inr greeting"
    using that s
    by (auto simp: newMemberHandler_def Let_def sendMessage_def split: prod.splits)
  have intro: "newMemberHandler BOT_ID esc st (msg\<lparr>new_chat_members := u # others\<rparr>)
        = (None, setOwnerId (sendMessage st (chat_id (chat msg)) intro) (chat_id (chat msg))
                   (user_id (from_user msg)))"
    if "user_id u = BOT_ID" "composeIntroMessage esc (from_user msg) (title (chat msg)) = Inr intro"
    using that by (simp add: newMemberHandler_def Let_def)
  have bot: "newMemberHandler BOT_ID esc st (msg\<lparr>new_chat_members := u # others\<rparr>) = (None, st)"
    if "user_id u \<noteq> BOT_ID" "is_bot u"
    using that by (simp add: newMemberHandler_def Let_def)
  from same atMost nonbot intro bot show ?thesis by blast
qed

theorem C10_witness:
  "fst (newMemberHandler 777 markdownEscape warm ((messageFrom ana)\<lparr>new_chat_members := [bob, carl]\<rparr>))
     = None \<and>
   sent (snd (newMemberHandler 777 markdownEscape warm ((messageFrom ana)\<lparr>new_chat_members := [bob, carl]\<rparr>)))
     = [(- 1001, ''Welcome Bob!'')]"
proof -
  have a: "user_id bob \<noteq> 777" "\<not> is_bot bob" by (simp_all add: bob_def)
  have b: "fst (getMsgTemplate warm (chat_id (chat (messageFrom ana)))) = Str ''Welcome $firstname!''"
    by (simp add: getMsgTemplate_def warm_def whenTruthy_def truthy_def messageFrom_def startupHub_def)
  have "composeMessage markdownEscape ''Welcome $firstname!'' bob (Some ''Startup Hub'')
          = Inr ''Welcome Bob!''"
    by (simp add: composeMessage_def andThen_def bob_def markdownEscape_def replacements_def
          replaceAllChar_def matchName_def placeholderNames_def truthyString_def)
  then have c: "composeMessage markdownEscape ''Welcome $firstname!'' bob (title (chat (messageFrom ana)))
             = Inr ''Welcome Bob!''"
    by (simp add: messageFrom_def startupHub_def)
  from C10_only_first_new_member [where BOT_ID = 777 and esc = markdownEscape and st = warm
      and msg = "messageFrom ana" and u = bob and others = "[carl]"
      and t = "''Welcome $firstname!''" and greeting = "''Welcome Bob!''"] a b c
  have "fst (newMemberHandler 777 markdownEscape warm ((messageFrom ana)\<lparr>new_chat_members := [bob, carl]\<rparr>)) = None"
    "sent (snd (newMemberHandler 777 markdownEscape warm ((messageFrom ana)\<lparr>new_chat_members := [bob, carl]\<rparr>)))
       = sent warm @ [(chat_id (chat (messageFrom ana)), ''Welcome Bob!'')]"
    by blast+
  then show ?thesis
    by (simp add: warm_def configured_def messageFrom_def startupHub_def)
qed

end
